theory Spec2Isabelle
  imports Complex_Main
begin

section \<open>JavaScript numbers\<close>

text \<open>
  The geometry of the indicator is computed with JavaScript numbers. The model keeps the
  three non-finite values of a double, because the source guards against them, and
  treats arithmetic on finite values as exact: rounding and overflow of finite results
  are not modelled, and the two zeros are identified (a division by zero takes the sign
  of the dividend, as with a positive zero divisor).
\<close>

datatype jsnum = Num real | PosInf | NegInf | NaN

fun jadd :: "jsnum \<Rightarrow> jsnum \<Rightarrow> jsnum" where
  "jadd NaN y = NaN"
| "jadd x NaN = NaN"
| "jadd (Num a) (Num b) = Num (a + b)"
| "jadd (Num a) PosInf = PosInf"
| "jadd (Num a) NegInf = NegInf"
| "jadd PosInf (Num b) = PosInf"
| "jadd NegInf (Num b) = NegInf"
| "jadd PosInf PosInf = PosInf"
| "jadd NegInf NegInf = NegInf"
| "jadd PosInf NegInf = NaN"
| "jadd NegInf PosInf = NaN"

fun jsub :: "jsnum \<Rightarrow> jsnum \<Rightarrow> jsnum" where
  "jsub NaN y = NaN"
| "jsub x NaN = NaN"
| "jsub (Num a) (Num b) = Num (a - b)"
| "jsub (Num a) PosInf = NegInf"
| "jsub (Num a) NegInf = PosInf"
| "jsub PosInf (Num b) = PosInf"
| "jsub NegInf (Num b) = NegInf"
| "jsub PosInf NegInf = PosInf"
| "jsub NegInf PosInf = NegInf"
| "jsub PosInf PosInf = NaN"
| "jsub NegInf NegInf = NaN"

fun jmul :: "jsnum \<Rightarrow> jsnum \<Rightarrow> jsnum" where
  "jmul NaN y = NaN"
| "jmul x NaN = NaN"
| "jmul (Num a) (Num b) = Num (a * b)"
| "jmul (Num a) PosInf = (if a = 0 then NaN else if 0 < a then PosInf else NegInf)"
| "jmul (Num a) NegInf = (if a = 0 then NaN else if 0 < a then NegInf else PosInf)"
| "jmul PosInf (Num b) = (if b = 0 then NaN else if 0 < b then PosInf else NegInf)"
| "jmul NegInf (Num b) = (if b = 0 then NaN else if 0 < b then NegInf else PosInf)"
| "jmul PosInf PosInf = PosInf"
| "jmul NegInf NegInf = PosInf"
| "jmul PosInf NegInf = NegInf"
| "jmul NegInf PosInf = NegInf"

fun jdiv :: "jsnum \<Rightarrow> jsnum \<Rightarrow> jsnum" where
  "jdiv NaN y = NaN"
| "jdiv x NaN = NaN"
| "jdiv (Num a) (Num b) =
     (if b = 0 then (if a = 0 then NaN else if 0 < a then PosInf else NegInf)
      else Num (a / b))"
| "jdiv (Num a) PosInf = Num 0"
| "jdiv (Num a) NegInf = Num 0"
| "jdiv PosInf (Num b) = (if 0 \<le> b then PosInf else NegInf)"
| "jdiv NegInf (Num b) = (if 0 \<le> b then NegInf else PosInf)"
| "jdiv PosInf PosInf = NaN"
| "jdiv NegInf NegInf = NaN"
| "jdiv PosInf NegInf = NaN"
| "jdiv NegInf PosInf = NaN"

text \<open>Truthiness of a number: zero and NaN are falsy, everything else is truthy.\<close>

fun truthy :: "jsnum \<Rightarrow> bool" where
  "truthy (Num a) = (a \<noteq> 0)"
| "truthy NaN = False"
| "truthy PosInf = True"
| "truthy NegInf = True"

text \<open>The operator \<^verbatim>\<open>a || b\<close> on numbers.\<close>

definition jor :: "jsnum \<Rightarrow> jsnum \<Rightarrow> jsnum" where
  "jor a b = (if truthy a then a else b)"

fun is_finite :: "jsnum \<Rightarrow> bool" where
  "is_finite (Num a) = True"
| "is_finite PosInf = False"
| "is_finite NegInf = False"
| "is_finite NaN = False"

section \<open>Data model of SegmentedControl\<close>

text \<open>
  \<^verbatim>\<open>React.ReactNode\<close> is opaque to the component. A string is a node; every other node
  is identified by a number.
\<close>

datatype ReactNode = Text string | Element nat

text \<open>
  \<^verbatim>\<open>interface SegmentedControlItem { value: string; label: React.ReactNode; disabled?: boolean }\<close>.
  An optional property is an option: \<open>None\<close> is \<^verbatim>\<open>undefined\<close>.
\<close>

record SegmentedControlItem =
  "value" :: string
  label :: ReactNode
  disabled :: "bool option"

text \<open>An entry of \<^verbatim>\<open>data: (string | SegmentedControlItem)[]\<close>.\<close>

datatype DataEntry = Str string | Item SegmentedControlItem

datatype Orientation = vertical | horizontal

datatype Direction = ltr | rtl

text \<open>
  The props the component's logic reads. Props that only feed the style resolver
  (\<^verbatim>\<open>color\<close>, \<^verbatim>\<open>size\<close>, \<^verbatim>\<open>radius\<close>, the transition props, \<^verbatim>\<open>classNames\<close>, ...) are left out, as
  is the style output they produce, and so is \<^verbatim>\<open>withItemsBorders\<close>, whose value comes out
  of the merge of \<^verbatim>\<open>useProps\<close> with the theme's defaults. The \<^verbatim>\<open>onChange\<close> callback is a
  function from the selected string to an effect of type \<open>'e\<close> on the caller's side; the
  model records the effects a handler produces in the order of the calls.
\<close>

record 'e SegmentedControlProps =
  data :: "DataEntry list"
  value_prop :: "string option"
  defaultValue :: "string option"
  onChange :: "(string \<Rightarrow> 'e) option"
  disabled_prop :: "bool option"
  readOnly :: "bool option"
  fullWidth :: "bool option"
  orientation :: "Orientation option"

text \<open>Truthiness of an optional boolean: \<^verbatim>\<open>undefined\<close> and \<^verbatim>\<open>false\<close> are falsy.\<close>

definition flag :: "bool option \<Rightarrow> bool" where
  "flag b = (b = Some True)"

text \<open>
  \<^verbatim>\<open>const _data = data.map((item) =>
    typeof item === 'string' ? { label: item, value: item } : item);\<close>
\<close>

definition normalize_item :: "DataEntry \<Rightarrow> SegmentedControlItem" where
  "normalize_item item =
     (case item of
        Str s \<Rightarrow> \<lparr>value = s, label = Text s, disabled = None\<rparr>
      | Item r \<Rightarrow> r)"

definition norm_data :: "DataEntry list \<Rightarrow> SegmentedControlItem list" where
  "norm_data d = map normalize_item d"

text \<open>
  \<^verbatim>\<open>finalValue: Array.isArray(data)
    ? _data.find((item) => !item.disabled)?.value ?? (data[0] as any)?.value ?? null
    : null\<close>.
  \<open>data\<close> is a list, so \<^verbatim>\<open>Array.isArray(data)\<close> holds. \<^verbatim>\<open>data[0]\<close> is \<^verbatim>\<open>undefined\<close> for the
  empty list, and the \<^verbatim>\<open>value\<close> property of a string is \<^verbatim>\<open>undefined\<close>; both end in
  \<^verbatim>\<open>null\<close>, which is \<open>None\<close> here. The predicate of \<^verbatim>\<open>find\<close> is \<open>enabled\<close>.
\<close>

definition enabled :: "SegmentedControlItem \<Rightarrow> bool" where
  "enabled item = (\<not> flag (disabled item))"

definition finalValue :: "DataEntry list \<Rightarrow> string option" where
  "finalValue d =
     (case find enabled (norm_data d) of
        Some item \<Rightarrow> Some (value item)
      | None \<Rightarrow>
          (case d of
             [] \<Rightarrow> None
           | Str s # rest \<Rightarrow> None
           | Item r # rest \<Rightarrow> Some (value r)))"

text \<open>
  Modelled from the spec: the hook \<^verbatim>\<open>useUncontrolled\<close> of \<^verbatim>\<open>@mantine/hooks\<close> is not
  among the sources. The spec describes it as the merge utility of the controlled and
  the uncontrolled selection: a controlled component's displayed value is fully
  determined by the externally supplied value and changes only through the external
  callback; an uncontrolled component owns and mutates its displayed value internally,
  seeded by the default, and the initial selection is the final value when neither
  \<^verbatim>\<open>value\<close> nor \<^verbatim>\<open>defaultValue\<close> is supplied. The hook is modelled by three functions: the
  seed of the internal value, the merged value, and the change handler, which returns
  the new internal value and the \<^verbatim>\<open>onChange\<close> effects it produced.
\<close>

definition useUncontrolled_seed :: "string option \<Rightarrow> string option \<Rightarrow> string option" where
  "useUncontrolled_seed dflt final =
     (case dflt of Some d \<Rightarrow> Some d | None \<Rightarrow> final)"

definition useUncontrolled_value :: "string option \<Rightarrow> string option \<Rightarrow> string option" where
  "useUncontrolled_value controlled internal =
     (case controlled of Some v \<Rightarrow> Some v | None \<Rightarrow> internal)"

definition useUncontrolled_change ::
  "string option \<Rightarrow> (string \<Rightarrow> 'e) option \<Rightarrow> string \<Rightarrow> string option
     \<Rightarrow> string option \<times> 'e list" where
  "useUncontrolled_change controlled cb v internal =
     (let calls = (case cb of Some f \<Rightarrow> [f v] | None \<Rightarrow> [])
      in case controlled of
           Some c \<Rightarrow> (internal, calls)
         | None \<Rightarrow> (Some v, calls))"

section \<open>Component state and host measurements\<close>

text \<open>
  The measurements the geometry effect reads from the label element of a control:
  \<^verbatim>\<open>element.getBoundingClientRect().width\<close>, \<^verbatim>\<open>element.offsetWidth\<close>,
  \<^verbatim>\<open>element.clientWidth\<close>, \<^verbatim>\<open>element.clientHeight\<close>, \<^verbatim>\<open>element.parentElement.offsetLeft\<close>
  and \<^verbatim>\<open>element.parentElement.offsetTop\<close>.
\<close>

record LabelElement =
  rectWidth :: jsnum
  offsetWidth :: jsnum
  clientWidth :: jsnum
  clientHeight :: jsnum
  parentOffsetLeft :: jsnum
  parentOffsetTop :: jsnum

text \<open>
  The helper \<^verbatim>\<open>getRootPadding\<close> is not among the sources; its result on the root element,
  \<^verbatim>\<open>getRootPadding(rootRef.current, WRAPPER_PADDING)\<close>, is a measurement of the host and
  is carried by the root element of the model.
\<close>

record Padding =
  padTop :: jsnum
  padLeft :: jsnum
  padRight :: jsnum
  padBottom :: jsnum

record RootElement =
  rootPadding :: Padding

text \<open>\<^verbatim>\<open>activePosition\<close>: \<^verbatim>\<open>{ width, height, translate: [x, y] }\<close>.\<close>

record Position =
  width :: jsnum
  height :: jsnum
  translate :: "jsnum \<times> jsnum"

definition hidden :: Position where
  "hidden = \<lparr>width = Num 0, height = Num 0, translate = (Num 0, Num 0)\<rparr>"

text \<open>
  The state the hooks of one component instance hold:
  the internal value of \<^verbatim>\<open>useUncontrolled\<close>, \<^verbatim>\<open>activePosition\<close>, \<^verbatim>\<open>initialized\<close>, the object
  \<^verbatim>\<open>refs.current\<close> (a key may be present with the element \<^verbatim>\<open>null\<close>, which is \<open>Some None\<close>),
  the element \<^verbatim>\<open>observerRef.current\<close> (the same node as \<^verbatim>\<open>rootRef.current\<close>, both are
  assigned by the merged ref), the width of \<^verbatim>\<open>containerRect\<close> and the identifier
  \<^verbatim>\<open>uuid\<close>. Keys that an object inherits from its prototype are not modelled:
  \<open>refs\<close> holds the keys the ref callbacks have written.
\<close>

record State =
  uncontrolledValue :: "string option"
  activePosition :: Position
  initialized :: bool
  refs :: "string \<rightharpoonup> LabelElement option"
  observerRef :: "RootElement option"
  containerRect :: jsnum
  uuid :: string

text \<open>What the component reads from its surroundings: \<^verbatim>\<open>useDirection().dir\<close> and \<^verbatim>\<open>getEnv()\<close>.\<close>

record Host =
  dir :: Direction
  getEnv :: string

text \<open>The first render: the state hooks take their initial values, nothing is mounted.\<close>

definition mount :: "'e SegmentedControlProps \<Rightarrow> string \<Rightarrow> State" where
  "mount props uid =
     \<lparr>uncontrolledValue = useUncontrolled_seed (defaultValue props) (finalValue (data props)),
      activePosition = hidden,
      initialized = False,
      refs = Map.empty,
      observerRef = None,
      containerRect = Num 0,
      uuid = uid\<rparr>"

text \<open>\<^verbatim>\<open>_value\<close>, the first component of the result of \<^verbatim>\<open>useUncontrolled\<close>.\<close>

definition current_value :: "'e SegmentedControlProps \<Rightarrow> State \<Rightarrow> string option" where
  "current_value props st = useUncontrolled_value (value_prop props) (uncontrolledValue st)"

text \<open>\<^verbatim>\<open>handleValueChange\<close>, the second component.\<close>

definition handleValueChange :: "'e SegmentedControlProps \<Rightarrow> string \<Rightarrow> State \<Rightarrow> State \<times> 'e list" where
  "handleValueChange props v st =
     (case useUncontrolled_change (value_prop props) (onChange props) v (uncontrolledValue st) of
        (internal, calls) \<Rightarrow> (st\<lparr>uncontrolledValue := internal\<rparr>, calls))"

section \<open>The geometry effect\<close>

text \<open>
  A property key is a string: \<^verbatim>\<open>_value in refs.current\<close> and \<^verbatim>\<open>refs.current[_value]\<close> turn
  a \<^verbatim>\<open>null\<close> value into the key \<^verbatim>\<open>"null"\<close>.
\<close>

definition key_of :: "string option \<Rightarrow> string" where
  "key_of v = (case v of None \<Rightarrow> ''null'' | Some s \<Rightarrow> s)"

text \<open>
  The body of the branch \<^verbatim>\<open>if (element) { ... }\<close>, up to the argument of
  \<^verbatim>\<open>setActivePosition\<close>.
\<close>

definition measured_position :: "Direction \<Rightarrow> Padding \<Rightarrow> jsnum \<Rightarrow> LabelElement \<Rightarrow> Position" where
  "measured_position d pad cw element =
     (let scaledValue = jdiv (offsetWidth element) (rectWidth element);
          w = jor (jmul (clientWidth element) scaledValue) (Num 0);
          h = jor (jmul (clientHeight element) scaledValue) (Num 0);
          offsetRight =
            jsub (jadd (jsub cw (parentOffsetLeft element))
                       (if d = rtl then padLeft pad else padRight pad)) w;
          offsetLeft =
            jsub (parentOffsetLeft element) (if d = rtl then padRight pad else padLeft pad)
      in \<lparr>width = w, height = h,
          translate = (if d = rtl then jmul offsetRight (Num (- 1)) else offsetLeft,
                       jsub (parentOffsetTop element) (padTop pad))\<rparr>)"

text \<open>
  \<^verbatim>\<open>useEffect(() => {
    if (_value in refs.current && observerRef.current) {
      const element = refs.current[_value];
      if (element) { ...; setActivePosition({ width, height, translate: [...] }); }
      else { setActivePosition({ width: 0, height: 0, translate: [0, 0] }); }
    }
  }, [_value, containerRect, dir]);\<close>
\<close>

definition geometry_effect :: "Direction \<Rightarrow> string option \<Rightarrow> State \<Rightarrow> State" where
  "geometry_effect d v st =
     (case refs st (key_of v) of
        None \<Rightarrow> st
      | Some element \<Rightarrow>
          (case observerRef st of
             None \<Rightarrow> st
           | Some rootEl \<Rightarrow>
               (case element of
                  Some el \<Rightarrow>
                    st\<lparr>activePosition :=
                         measured_position d (rootPadding rootEl) (containerRect st) el\<rparr>
                | None \<Rightarrow> st\<lparr>activePosition := hidden\<rparr>)))"

text \<open>
  The callback of \<^verbatim>\<open>useTimeout\<close>:
  \<^verbatim>\<open>if (getEnv() !== 'test') { setInitialized(true); }\<close>.
\<close>

definition timeout_callback :: "Host \<Rightarrow> State \<Rightarrow> State" where
  "timeout_callback host st =
     (if getEnv host \<noteq> ''test'' then st\<lparr>initialized := True\<rparr> else st)"

text \<open>The ref callback of a label: \<^verbatim>\<open>refs.current[item.value] = node\<close>.\<close>

definition label_ref :: "string \<Rightarrow> LabelElement option \<Rightarrow> State \<Rightarrow> State" where
  "label_ref v node st = st\<lparr>refs := (refs st)(v \<mapsto> node)\<rparr>"

text \<open>
  The handler of a control's radio input:
  \<^verbatim>\<open>onChange={() => !readOnly && handleValueChange(item.value)}\<close>.
\<close>

definition input_onChange ::
  "'e SegmentedControlProps \<Rightarrow> SegmentedControlItem \<Rightarrow> State \<Rightarrow> State \<times> 'e list" where
  "input_onChange props item st =
     (if \<not> flag (readOnly props) then handleValueChange props (value item) st else (st, []))"

section \<open>Rendering\<close>

text \<open>
  One element of \<^verbatim>\<open>controls\<close>: the wrapper's \<^verbatim>\<open>mod\<close> and \<^verbatim>\<open>key\<close>, the attributes of the radio
  input and the \<^verbatim>\<open>mod\<close>, \<^verbatim>\<open>htmlFor\<close> and children of the label.
\<close>

record Control =
  control_active :: bool
  control_orientation :: "Orientation option"
  control_key :: string
  input_disabled :: bool
  input_name :: string
  input_value :: string
  input_id :: string
  input_checked :: bool
  label_active :: bool
  label_disabled :: bool
  label_read_only :: bool
  label_htmlFor :: string
  label_children :: ReactNode

definition control :: "'e SegmentedControlProps \<Rightarrow> State \<Rightarrow> SegmentedControlItem \<Rightarrow> Control" where
  "control props st item =
     (let v = current_value props st;
          off = (flag (disabled_prop props) \<or> flag (disabled item))
      in \<lparr>control_active = (v = Some (value item)),
          control_orientation = orientation props,
          control_key = value item,
          input_disabled = off,
          input_name = uuid st,
          input_value = value item,
          input_id = uuid st @ ''-'' @ value item,
          input_checked = (v = Some (value item)),
          label_active = (v = Some (value item) \<and> \<not> off),
          label_disabled = off,
          label_read_only = flag (readOnly props),
          label_htmlFor = uuid st @ ''-'' @ value item,
          label_children = label item\<rparr>)"

text \<open>
  The indicator's variables \<^verbatim>\<open>--sc-indicator-width\<close>, \<^verbatim>\<open>--sc-indicator-height\<close> and
  \<^verbatim>\<open>--sc-indicator-transform\<close>, as the numbers they are printed from.
\<close>

record Indicator =
  indicator_width :: jsnum
  indicator_height :: jsnum
  indicator_transform :: "jsnum \<times> jsnum"

text \<open>The root element: its \<^verbatim>\<open>mod\<close>, the indicator when there is one, and the controls.\<close>

record Root =
  mod_full_width :: bool
  mod_orientation :: "Orientation option"
  mod_initialization :: bool
  indicator :: "Indicator option"
  controls :: "Control list"

text \<open>
  The render function; \<open>None\<close> is \<^verbatim>\<open>return null\<close>. \<^verbatim>\<open>typeof _value === 'string'\<close> holds
  exactly when the merged value is not \<^verbatim>\<open>null\<close>.
\<close>

definition SegmentedControl :: "'e SegmentedControlProps \<Rightarrow> State \<Rightarrow> Root option" where
  "SegmentedControl props st =
     (let v = current_value props st;
          cs = map (control props st) (norm_data (data props))
      in if length (data props) = 0 then None
         else Some
           \<lparr>mod_full_width = flag (fullWidth props),
            mod_orientation = orientation props,
            mod_initialization = (\<not> initialized st),
            indicator =
              (case v of
                 Some s \<Rightarrow>
                   Some \<lparr>indicator_width = width (activePosition st),
                         indicator_height = height (activePosition st),
                         indicator_transform = translate (activePosition st)\<rparr>
               | None \<Rightarrow> None),
            controls = cs\<rparr>)"

section \<open>The component as a transition system\<close>

text \<open>
  What can happen to a mounted instance. \<open>Change v\<close> is the change event of the radio
  input whose \<^verbatim>\<open>value\<close> attribute is \<open>v\<close>: every pointer or keyboard selection reaches the
  component as this event. \<open>Timeout\<close> is the timer of \<^verbatim>\<open>useTimeout\<close> firing (the timer
  itself belongs to the host; its delay is not modelled). \<open>LabelRef\<close> and \<open>RootRef\<close> are the
  host attaching or detaching elements, \<open>Resize\<close> is the resize observer reporting a
  container width, \<open>Effect\<close> is the host running the geometry effect, and \<open>SetProps\<close> is
  the owner rendering the component with new props: the programmatic update.
\<close>

datatype 'e Event =
    Change string
  | Timeout
  | LabelRef string "LabelElement option"
  | RootRef "RootElement option"
  | Resize jsnum
  | Effect
  | SetProps "'e SegmentedControlProps"

fun is_SetProps :: "'e Event \<Rightarrow> bool" where
  "is_SetProps (SetProps p) = True"
| "is_SetProps ev = False"

text \<open>
  One event: the new props and state, and the \<^verbatim>\<open>onChange\<close> effects produced. A change
  event runs the handler of the control that carries the value; without such a control
  there is no input to fire it.
\<close>

fun step ::
  "Host \<Rightarrow> 'e Event \<Rightarrow> 'e SegmentedControlProps \<times> State
     \<Rightarrow> ('e SegmentedControlProps \<times> State) \<times> 'e list" where
  "step host (Change v) (props, st) =
     (case find (\<lambda>item. value item = v) (norm_data (data props)) of
        Some item \<Rightarrow> (case input_onChange props item st of (st', calls) \<Rightarrow> ((props, st'), calls))
      | None \<Rightarrow> ((props, st), []))"
| "step host Timeout (props, st) = ((props, timeout_callback host st), [])"
| "step host (LabelRef v node) (props, st) = ((props, label_ref v node st), [])"
| "step host (RootRef node) (props, st) = ((props, st\<lparr>observerRef := node\<rparr>), [])"
| "step host (Resize w) (props, st) = ((props, st\<lparr>containerRect := w\<rparr>), [])"
| "step host Effect (props, st) =
     ((props, geometry_effect (dir host) (current_value props st) st), [])"
| "step host (SetProps props') (props, st) = ((props', st), [])"

fun run ::
  "Host \<Rightarrow> 'e Event list \<Rightarrow> 'e SegmentedControlProps \<times> State
     \<Rightarrow> ('e SegmentedControlProps \<times> State) \<times> 'e list" where
  "run host [] c = (c, [])"
| "run host (ev # evs) c =
     (case step host ev c of
        (c', calls) \<Rightarrow> (case run host evs c' of (c'', calls') \<Rightarrow> (c'', calls @ calls')))"

section \<open>Sample inputs\<close>

text \<open>Concrete props, items, hosts and states at which the theorems below are evaluated.\<close>

abbreviation props_none :: "string SegmentedControlProps" where
  "props_none \<equiv>
     \<lparr>data = [], value_prop = None, defaultValue = None, onChange = Some id,
      disabled_prop = None, readOnly = None, fullWidth = None, orientation = None\<rparr>"

abbreviation props_ab :: "string SegmentedControlProps" where
  "props_ab \<equiv> props_none\<lparr>data := [Str ''a'', Str ''b'']\<rparr>"

abbreviation item_a_disabled :: SegmentedControlItem where
  "item_a_disabled \<equiv> \<lparr>value = ''a'', label = Text ''A'', disabled = Some True\<rparr>"

abbreviation item_b :: SegmentedControlItem where
  "item_b \<equiv> \<lparr>value = ''b'', label = Text ''B'', disabled = None\<rparr>"

abbreviation host_ltr :: Host where
  "host_ltr \<equiv> \<lparr>dir = ltr, getEnv = ''production''\<rparr>"

abbreviation host_test :: Host where
  "host_test \<equiv> \<lparr>dir = ltr, getEnv = ''test''\<rparr>"

abbreviation state_sample :: State where
  "state_sample \<equiv>
     \<lparr>uncontrolledValue = Some ''a'',
      activePosition = \<lparr>width = Num 30, height = Num 20, translate = (Num 0, Num 0)\<rparr>,
      initialized = True, refs = Map.empty, observerRef = None, containerRect = Num 100,
      uuid = ''sc''\<rparr>"

abbreviation pad4 :: Padding where
  "pad4 \<equiv> \<lparr>padTop = Num 4, padLeft = Num 4, padRight = Num 4, padBottom = Num 4\<rparr>"

abbreviation root4 :: RootElement where
  "root4 \<equiv> \<lparr>rootPadding = pad4\<rparr>"

abbreviation label_first :: LabelElement where
  "label_first \<equiv>
     \<lparr>rectWidth = Num 30, offsetWidth = Num 30, clientWidth = Num 30, clientHeight = Num 20,
      parentOffsetLeft = Num 4, parentOffsetTop = Num 4\<rparr>"

abbreviation label_second :: LabelElement where
  "label_second \<equiv>
     \<lparr>rectWidth = Num 40, offsetWidth = Num 40, clientWidth = Num 40, clientHeight = Num 20,
      parentOffsetLeft = Num 34, parentOffsetTop = Num 4\<rparr>"

text \<open>
  A label under a transform that scales it to nothing: its layout box is 100 wide, its
  bounding rectangle has width 0.
\<close>

abbreviation label_scaled :: LabelElement where
  "label_scaled \<equiv>
     \<lparr>rectWidth = Num 0, offsetWidth = Num 100, clientWidth = Num 100, clientHeight = Num 30,
      parentOffsetLeft = Num 4, parentOffsetTop = Num 4\<rparr>"

abbreviation state_measured :: State where
  "state_measured \<equiv>
     \<lparr>uncontrolledValue = Some ''a'', activePosition = hidden, initialized = True,
      refs = [''a'' \<mapsto> Some label_first, ''b'' \<mapsto> Some label_second],
      observerRef = Some root4, containerRect = Num 100, uuid = ''sc''\<rparr>"

text \<open>
  The events of mounting two controls in a container 100 wide, up to the first run of the
  geometry effect.
\<close>

abbreviation mounting :: "string Event list" where
  "mounting \<equiv>
     [RootRef (Some root4), LabelRef ''a'' (Some label_first),
      LabelRef ''b'' (Some label_second), Resize (Num 100), Effect]"

section \<open>Normalization of the data\<close>

lemma normalize_item_enabled_Str: "enabled (normalize_item (Str s))"
  by (simp add: normalize_item_def enabled_def flag_def)

text \<open>
  C7: the normalization keeps the length and the order of \<open>data\<close>; at every position a
  plain string \<open>s\<close> has become the record with label \<open>s\<close> and value \<open>s\<close> (and no
  \<open>disabled\<close> property), and an entry that is a record is the same record.
\<close>

theorem normalization_uniform:
  "length (norm_data d) = length d \<and>
   (\<forall>i < length d.
      norm_data d ! i =
        (case d ! i of
           Str s \<Rightarrow> \<lparr>value = s, label = Text s, disabled = None\<rparr>
         | Item r \<Rightarrow> r))"
  by (simp add: norm_data_def normalize_item_def)

theorem normalization_uniform_witness:
  "norm_data [Str ''React'', Item \<lparr>value = ''ng'', label = Element 7, disabled = Some True\<rparr>] ! 0
     = \<lparr>value = ''React'', label = Text ''React'', disabled = None\<rparr> \<and>
   norm_data [Str ''React'', Item \<lparr>value = ''ng'', label = Element 7, disabled = Some True\<rparr>] ! 1
     = \<lparr>value = ''ng'', label = Element 7, disabled = Some True\<rparr>"
  using normalization_uniform
    [of "[Str ''React'', Item \<lparr>value = ''ng'', label = Element 7, disabled = Some True\<rparr>]"]
  by (simp add: norm_data_def normalize_item_def)

section \<open>The initial selection\<close>

lemma find_enabled_None_first:
  "find enabled (norm_data d) = None \<Longrightarrow> d = x # rest \<Longrightarrow> \<exists>r. x = Item r"
  by (cases x) (auto simp: norm_data_def normalize_item_enabled_Str)

text \<open>
  When no entry is enabled the first entry is a record, so the fallback
  \<^verbatim>\<open>(data[0] as any)?.value\<close> is the value of the first entry.
\<close>

lemma finalValue_eq:
  "finalValue d =
     (case find enabled (norm_data d) of
        Some item \<Rightarrow> Some (value item)
      | None \<Rightarrow> (case norm_data d of [] \<Rightarrow> None | item # rest \<Rightarrow> Some (value item)))"
proof (cases "find enabled (norm_data d)")
  case None
  show ?thesis
  proof (cases d)
    case Nil
    then show ?thesis by (simp add: finalValue_def norm_data_def)
  next
    case (Cons x rest)
    with None obtain r where "x = Item r" using find_enabled_None_first by blast
    with None Cons show ?thesis by (simp add: finalValue_def norm_data_def normalize_item_def)
  qed
next
  case (Some item)
  then show ?thesis by (simp add: finalValue_def)
qed

text \<open>
  C1, as stated, fails: with the single entry \<^verbatim>\<open>{ value: 'a', label: 'A', disabled: true }\<close>
  and neither \<^verbatim>\<open>value\<close> nor \<^verbatim>\<open>defaultValue\<close>, no entry has its \<open>disabled\<close> flag unset, and
  the initially selected value is \<open>a\<close>, the value of a disabled entry.
\<close>

theorem initial_value_counterexample:
  "find enabled (norm_data [Item item_a_disabled]) = None \<and>
   current_value (props_none\<lparr>data := [Item item_a_disabled]\<rparr>)
     (mount (props_none\<lparr>data := [Item item_a_disabled]\<rparr>) ''sc'') = Some ''a''"
  by (simp add: norm_data_def normalize_item_def enabled_def flag_def current_value_def
      mount_def useUncontrolled_value_def useUncontrolled_seed_def finalValue_def)

text \<open>
  C1, amended: if neither \<^verbatim>\<open>value\<close> nor \<^verbatim>\<open>defaultValue\<close> is supplied, the initially selected
  value is the value of the first entry whose \<open>disabled\<close> flag is not set when there is
  such an entry; when every entry is disabled it is the value of the first entry; it is
  \<^verbatim>\<open>null\<close> only for the empty list.
\<close>

theorem initial_value_default:
  assumes "value_prop props = None" and "defaultValue props = None"
  shows "current_value props (mount props uid) =
     (case find enabled (norm_data (data props)) of
        Some item \<Rightarrow> Some (value item)
      | None \<Rightarrow>
          (case norm_data (data props) of
             [] \<Rightarrow> None
           | item # rest \<Rightarrow> Some (value item)))"
  using assms
  by (simp add: current_value_def mount_def useUncontrolled_value_def useUncontrolled_seed_def
      finalValue_eq)

theorem initial_value_default_witness:
  "current_value (props_none\<lparr>data := [Item item_a_disabled, Item item_b, Str ''c'']\<rparr>)
     (mount (props_none\<lparr>data := [Item item_a_disabled, Item item_b, Str ''c'']\<rparr>) ''sc'') = Some ''b'' \<and>
   current_value (props_none\<lparr>data := [Item item_a_disabled]\<rparr>)
     (mount (props_none\<lparr>data := [Item item_a_disabled]\<rparr>) ''sc'') = Some ''a''"
  using initial_value_default
      [of "props_none\<lparr>data := [Item item_a_disabled, Item item_b, Str ''c'']\<rparr>" "''sc''"]
    initial_value_default [of "props_none\<lparr>data := [Item item_a_disabled]\<rparr>" "''sc''"]
  by (simp add: norm_data_def normalize_item_def enabled_def flag_def)

section \<open>The rendered output\<close>

text \<open>
  C2: when \<open>data\<close> is the empty list the render function returns \<^verbatim>\<open>null\<close>, whatever the
  other props and the state of the hooks are.
\<close>

theorem empty_data_renders_nothing:
  "data props = [] \<Longrightarrow> SegmentedControl props st = None"
  by (simp add: SegmentedControl_def)

theorem empty_data_renders_nothing_witness:
  "data (props_none\<lparr>value_prop := Some ''a'', readOnly := Some True,
        orientation := Some vertical\<rparr>) = [] \<and>
   SegmentedControl (props_none\<lparr>value_prop := Some ''a'', readOnly := Some True,
        orientation := Some vertical\<rparr>) state_sample = None"
  using empty_data_renders_nothing
      [of "props_none\<lparr>value_prop := Some ''a'', readOnly := Some True,
        orientation := Some vertical\<rparr>" state_sample]
  by simp

lemma nonempty_data_renders_root:
  "data props \<noteq> [] \<Longrightarrow> \<exists>out. SegmentedControl props st = Some out"
  by (simp add: SegmentedControl_def)

text \<open>
  C9: in a rendered root the indicator element is present exactly when the merged value
  is a string; when the merged value is \<^verbatim>\<open>null\<close> the output holds no indicator.
\<close>

theorem indicator_only_for_string_value:
  assumes "SegmentedControl props st = Some out"
  shows "(indicator out = None) = (current_value props st = None)"
  using assms
  by (auto simp: SegmentedControl_def Let_def split: if_splits option.splits)

text \<open>
  The witness takes an instance mounted with empty \<open>data\<close>, whose internal value is
  \<^verbatim>\<open>null\<close>, and renders it with the two entries \<open>a\<close> and \<open>b\<close>: the root has no indicator.
  The same props on a state whose value is \<open>a\<close> give a root with an indicator.
\<close>

theorem indicator_only_for_string_value_witness:
  "SegmentedControl props_ab (mount props_none ''sc'')
     = Some (the (SegmentedControl props_ab (mount props_none ''sc''))) \<and>
   current_value props_ab (mount props_none ''sc'') = None \<and>
   indicator (the (SegmentedControl props_ab (mount props_none ''sc''))) = None \<and>
   SegmentedControl props_ab state_sample = Some (the (SegmentedControl props_ab state_sample)) \<and>
   indicator (the (SegmentedControl props_ab state_sample)) \<noteq> None"
proof -
  have h1: "SegmentedControl props_ab (mount props_none ''sc'')
     = Some (the (SegmentedControl props_ab (mount props_none ''sc'')))"
    by (simp add: SegmentedControl_def)
  have h2: "SegmentedControl props_ab state_sample
     = Some (the (SegmentedControl props_ab state_sample))"
    by (simp add: SegmentedControl_def)
  have v1: "current_value props_ab (mount props_none ''sc'') = None"
    by (simp add: current_value_def mount_def useUncontrolled_value_def
        useUncontrolled_seed_def finalValue_def norm_data_def)
  have v2: "current_value props_ab state_sample = Some ''a''"
    by (simp add: current_value_def useUncontrolled_value_def)
  from indicator_only_for_string_value [OF h1] indicator_only_for_string_value [OF h2]
    h1 h2 v1 v2
  show ?thesis by simp
qed

section \<open>Selection by the user\<close>

lemma input_onChange_readOnly:
  "flag (readOnly props) \<Longrightarrow> input_onChange props item st = (st, [])"
  by (simp add: input_onChange_def)

lemma step_readOnly:
  assumes "flag (readOnly props)" and "\<not> is_SetProps ev"
  shows "\<exists>st'. step host ev (props, st) = ((props, st'), []) \<and>
               uncontrolledValue st' = uncontrolledValue st"
proof (cases ev)
  case (Change v)
  with assms(1) show ?thesis
    by (simp add: input_onChange_readOnly split: option.splits)
next
  case Timeout
  then show ?thesis by (simp add: timeout_callback_def)
next
  case (LabelRef v node)
  then show ?thesis by (simp add: label_ref_def)
next
  case (RootRef node)
  then show ?thesis by simp
next
  case (Resize w)
  then show ?thesis by simp
next
  case Effect
  then show ?thesis by (simp add: geometry_effect_def split: option.splits)
next
  case (SetProps p)
  with assms(2) show ?thesis by simp
qed

lemma run_readOnly:
  assumes "flag (readOnly props)" and "\<forall>ev \<in> set evs. \<not> is_SetProps ev"
  shows "\<exists>st'. run host evs (props, st) = ((props, st'), []) \<and>
               uncontrolledValue st' = uncontrolledValue st"
  using assms(2)
proof (induction evs arbitrary: st)
  case Nil
  then show ?case by simp
next
  case (Cons ev evs)
  from Cons.prems have "\<not> is_SetProps ev" by simp
  with assms(1) obtain st1 where
    s1: "step host ev (props, st) = ((props, st1), [])"
    and u1: "uncontrolledValue st1 = uncontrolledValue st"
    using step_readOnly by blast
  from Cons.prems have "\<forall>e \<in> set evs. \<not> is_SetProps e" by simp
  with Cons.IH obtain st2 where
    s2: "run host evs (props, st1) = ((props, st2), [])"
    and u2: "uncontrolledValue st2 = uncontrolledValue st1"
    by blast
  from s1 s2 u1 u2 show ?case by simp
qed

text \<open>
  C4: when \<open>readOnly\<close> is true the handler of every radio input is a no-op, and over
  every sequence of events in which the owner does not pass new props (change events on
  any controls, mixed with the host's own events) no \<^verbatim>\<open>onChange\<close> effect is produced and
  the selected value stays what it was.
\<close>

theorem readOnly_blocks_change:
  assumes "flag (readOnly props)" and "\<forall>ev \<in> set evs. \<not> is_SetProps ev"
  shows "input_onChange props item st = (st, []) \<and>
         snd (run host evs (props, st)) = [] \<and>
         fst (fst (run host evs (props, st))) = props \<and>
         current_value props (snd (fst (run host evs (props, st)))) = current_value props st"
proof -
  from assms obtain st' where
    r: "run host evs (props, st) = ((props, st'), [])"
    and u: "uncontrolledValue st' = uncontrolledValue st"
    using run_readOnly by blast
  from assms(1) have "input_onChange props item st = (st, [])"
    by (rule input_onChange_readOnly)
  with r u show ?thesis by (simp add: current_value_def)
qed

theorem readOnly_blocks_change_witness:
  "flag (readOnly (props_ab\<lparr>readOnly := Some True\<rparr>)) \<and>
   snd (run host_ltr [Change ''b'', Effect, Change ''a'', Timeout]
         (props_ab\<lparr>readOnly := Some True\<rparr>, mount (props_ab\<lparr>readOnly := Some True\<rparr>) ''sc'')) = [] \<and>
   current_value (props_ab\<lparr>readOnly := Some True\<rparr>)
     (snd (fst (run host_ltr [Change ''b'', Effect, Change ''a'', Timeout]
         (props_ab\<lparr>readOnly := Some True\<rparr>, mount (props_ab\<lparr>readOnly := Some True\<rparr>) ''sc''))))
     = Some ''a''"
proof -
  have h1: "flag (readOnly (props_ab\<lparr>readOnly := Some True\<rparr>))"
    by (simp add: flag_def)
  have h2: "\<forall>ev \<in> set [Change ''b'', Effect, Change ''a'', Timeout :: string Event]. \<not> is_SetProps ev"
    by simp
  have v: "current_value (props_ab\<lparr>readOnly := Some True\<rparr>)
             (mount (props_ab\<lparr>readOnly := Some True\<rparr>) ''sc'') = Some ''a''"
    by (simp add: norm_data_def normalize_item_def enabled_def flag_def current_value_def
        mount_def useUncontrolled_value_def useUncontrolled_seed_def finalValue_def)
  from readOnly_blocks_change [OF h1 h2, of item_b
      "mount (props_ab\<lparr>readOnly := Some True\<rparr>) ''sc''" host_ltr] h1 v
  show ?thesis by simp
qed

lemma find_value_Some:
  "v \<in> value ` set xs \<Longrightarrow> \<exists>item. find (\<lambda>item. value item = v) xs = Some item \<and> value item = v"
  by (induction xs) auto

text \<open>
  C5, as stated, fails for a controlled component: with \<^verbatim>\<open>value\<close> \<open>a\<close>, the entries \<open>a\<close> and
  \<open>b\<close> and \<open>readOnly\<close> unset, the change event on the input of \<open>b\<close> invokes \<^verbatim>\<open>onChange\<close> once
  with \<open>b\<close>, and the tracked value is still \<open>a\<close>.
\<close>

theorem selection_change_counterexample:
  "value_prop (props_ab\<lparr>value_prop := Some ''a''\<rparr>) = Some ''a'' \<and>
   ''b'' \<in> value ` set (norm_data (data (props_ab\<lparr>value_prop := Some ''a''\<rparr>))) \<and>
   \<not> flag (readOnly (props_ab\<lparr>value_prop := Some ''a''\<rparr>)) \<and>
   snd (step host_ltr (Change ''b'')
          (props_ab\<lparr>value_prop := Some ''a''\<rparr>, mount (props_ab\<lparr>value_prop := Some ''a''\<rparr>) ''sc''))
     = [''b''] \<and>
   current_value (props_ab\<lparr>value_prop := Some ''a''\<rparr>)
     (snd (fst (step host_ltr (Change ''b'')
          (props_ab\<lparr>value_prop := Some ''a''\<rparr>, mount (props_ab\<lparr>value_prop := Some ''a''\<rparr>) ''sc''))))
     \<noteq> Some ''b''"
  by (simp add: norm_data_def normalize_item_def flag_def input_onChange_def
      handleValueChange_def useUncontrolled_change_def current_value_def
      useUncontrolled_value_def mount_def)

text \<open>
  C5, amended: for a value present in \<open>data\<close> and \<open>readOnly\<close> not set, one change event on
  its radio input invokes the \<^verbatim>\<open>onChange\<close> callback, when one is supplied, exactly once, with
  that value, and leaves the props alone; the tracked value then is that value when the
  component is uncontrolled, and is still the \<^verbatim>\<open>value\<close> prop when it is controlled. An
  update of the props by the owner invokes \<^verbatim>\<open>onChange\<close> zero times and leaves the state
  of the hooks alone.
\<close>

theorem selection_change:
  assumes "v \<in> value ` set (norm_data (data props))" and "\<not> flag (readOnly props)"
  shows "snd (step host (Change v) (props, st)) =
           (case onChange props of Some f \<Rightarrow> [f v] | None \<Rightarrow> []) \<and>
         fst (fst (step host (Change v) (props, st))) = props \<and>
         current_value props (snd (fst (step host (Change v) (props, st)))) =
           (case value_prop props of Some c \<Rightarrow> Some c | None \<Rightarrow> Some v) \<and>
         snd (step host (SetProps props') (props, st)) = [] \<and>
         snd (fst (step host (SetProps props') (props, st))) = st"
proof -
  from assms(1) obtain item where
    f: "find (\<lambda>item. value item = v) (norm_data (data props)) = Some item"
    and iv: "value item = v"
    using find_value_Some by blast
  from f iv assms(2) show ?thesis
    by (simp add: input_onChange_def handleValueChange_def useUncontrolled_change_def
        current_value_def useUncontrolled_value_def Let_def split: option.splits)
qed

theorem selection_change_witness:
  "''b'' \<in> value ` set (norm_data (data props_ab)) \<and> \<not> flag (readOnly props_ab) \<and>
   snd (step host_ltr (Change ''b'') (props_ab, mount props_ab ''sc'')) = [''b''] \<and>
   current_value props_ab (snd (fst (step host_ltr (Change ''b'') (props_ab, mount props_ab ''sc''))))
     = Some ''b'' \<and>
   snd (step host_ltr (SetProps (props_ab\<lparr>value_prop := Some ''b''\<rparr>))
         (props_ab\<lparr>value_prop := Some ''a''\<rparr>, mount props_ab ''sc'')) = []"
proof -
  have h1: "''b'' \<in> value ` set (norm_data (data props_ab))"
    by (simp add: norm_data_def normalize_item_def)
  have h2: "\<not> flag (readOnly props_ab)"
    by (simp add: flag_def)
  from selection_change [OF h1 h2, of host_ltr "mount props_ab ''sc''"] h1 h2
  show ?thesis by simp
qed

section \<open>The initialization flag\<close>

lemma run_Cons_fst:
  "fst (run host (ev # evs) c) = fst (run host evs (fst (step host ev c)))"
  by (simp split: prod.splits)

lemma step_initialized:
  "initialized (snd c) \<Longrightarrow> initialized (snd (fst (step host ev c)))"
  by (cases c; cases ev)
    (auto simp: input_onChange_def handleValueChange_def useUncontrolled_change_def Let_def
      timeout_callback_def label_ref_def geometry_effect_def split: option.splits)

lemma run_initialized:
  "initialized (snd c) \<Longrightarrow> initialized (snd (fst (run host evs c)))"
proof (induction evs arbitrary: c)
  case Nil
  then show ?case by simp
next
  case (Cons ev evs)
  from Cons.prems have "initialized (snd (fst (step host ev c)))"
    by (rule step_initialized)
  then have "initialized (snd (fst (run host evs (fst (step host ev c)))))"
    by (rule Cons.IH)
  then show ?case unfolding run_Cons_fst .
qed

lemma step_test_uninitialized:
  "getEnv host = ''test'' \<Longrightarrow> \<not> initialized (snd c) \<Longrightarrow>
     \<not> initialized (snd (fst (step host ev c)))"
  by (cases c; cases ev)
    (auto simp: input_onChange_def handleValueChange_def useUncontrolled_change_def Let_def
      timeout_callback_def label_ref_def geometry_effect_def split: option.splits)

lemma run_test_uninitialized:
  "getEnv host = ''test'' \<Longrightarrow> \<not> initialized (snd c) \<Longrightarrow>
     \<not> initialized (snd (fst (run host evs c)))"
proof (induction evs arbitrary: c)
  case Nil
  then show ?case by simp
next
  case (Cons ev evs)
  from Cons.prems have "\<not> initialized (snd (fst (step host ev c)))"
    by (rule step_test_uninitialized)
  with Cons.prems(1) have "\<not> initialized (snd (fst (run host evs (fst (step host ev c)))))"
    by (rule Cons.IH)
  then show ?case unfolding run_Cons_fst .
qed

lemma render_initialization:
  "map_option mod_initialization (SegmentedControl props st) =
     (if data props = [] then None else Some (\<not> initialized st))"
  by (simp add: SegmentedControl_def)

text \<open>
  C8, as stated, fails in the test environment: there the callback of the timer leaves
  the flag alone, so after the timer has fired (and after further events) the root still
  carries the \<open>initialization\<close> marker. The marker is not limited to the first paint and
  the suppression is not skipped; what is skipped is the deferred update of the flag.
\<close>

theorem initialization_test_counterexample:
  "getEnv host_test = ''test'' \<and>
   map_option mod_initialization
     (SegmentedControl props_ab
        (snd (fst (run host_test [Timeout] (props_ab, mount props_ab ''sc''))))) = Some True \<and>
   map_option mod_initialization
     (SegmentedControl props_ab
        (snd (fst (run host_test [Timeout, Change ''b'', Effect, Timeout]
           (props_ab, mount props_ab ''sc''))))) = Some True"
  by (simp add: SegmentedControl_def timeout_callback_def mount_def input_onChange_def
      handleValueChange_def useUncontrolled_change_def geometry_effect_def flag_def
      norm_data_def normalize_item_def split: option.splits)

text \<open>
  C8, amended: a mounted instance starts with \<open>initialized\<close> false, and its root, when
  there is one, carries the \<open>initialization\<close> marker. Outside the test environment the
  flag is true once the timer has fired and stays true over any events that follow, and
  every root rendered from then on is without the marker: the marker is on the first
  paint only. In the test environment the callback of the timer does not set the flag:
  after every sequence of events the flag is false and every rendered root still carries
  the marker.
\<close>

theorem initialization_flag:
  "\<not> initialized (mount props uid) \<and>
   (data props \<noteq> [] \<longrightarrow>
      map_option mod_initialization (SegmentedControl props (mount props uid)) = Some True) \<and>
   (getEnv host \<noteq> ''test'' \<longrightarrow>
      initialized (snd (fst (step host Timeout c))) \<and>
      initialized (snd (fst (run host (Timeout # evs) c))) \<and>
      map_option mod_initialization
        (SegmentedControl (fst (fst (run host (Timeout # evs) c)))
           (snd (fst (run host (Timeout # evs) c)))) =
        (if data (fst (fst (run host (Timeout # evs) c))) = [] then None else Some False)) \<and>
   (getEnv host = ''test'' \<longrightarrow>
      \<not> initialized (snd (fst (run host evs (props, mount props uid)))) \<and>
      map_option mod_initialization
        (SegmentedControl (fst (fst (run host evs (props, mount props uid))))
           (snd (fst (run host evs (props, mount props uid))))) =
        (if data (fst (fst (run host evs (props, mount props uid)))) = [] then None
         else Some True))"
proof -
  have m: "\<not> initialized (mount props uid)"
    by (simp add: mount_def)
  have t: "initialized (snd (fst (step host Timeout c)))" if "getEnv host \<noteq> ''test''"
    using that by (cases c) (simp add: timeout_callback_def)
  have r: "initialized (snd (fst (run host (Timeout # evs) c)))" if "getEnv host \<noteq> ''test''"
    unfolding run_Cons_fst using t [OF that] by (rule run_initialized)
  have u: "\<not> initialized (snd (fst (run host evs (props, mount props uid))))"
    if "getEnv host = ''test''"
    using that m by (simp add: run_test_uninitialized)
  have first: "data props \<noteq> [] \<longrightarrow>
      map_option mod_initialization (SegmentedControl props (mount props uid)) = Some True"
    using m by (simp add: render_initialization)
  have later: "getEnv host \<noteq> ''test'' \<longrightarrow>
      initialized (snd (fst (step host Timeout c))) \<and>
      initialized (snd (fst (run host (Timeout # evs) c))) \<and>
      map_option mod_initialization
        (SegmentedControl (fst (fst (run host (Timeout # evs) c)))
           (snd (fst (run host (Timeout # evs) c)))) =
        (if data (fst (fst (run host (Timeout # evs) c))) = [] then None else Some False)"
    using t r by (simp only: render_initialization) simp
  have test: "getEnv host = ''test'' \<longrightarrow>
      \<not> initialized (snd (fst (run host evs (props, mount props uid)))) \<and>
      map_option mod_initialization
        (SegmentedControl (fst (fst (run host evs (props, mount props uid))))
           (snd (fst (run host evs (props, mount props uid))))) =
        (if data (fst (fst (run host evs (props, mount props uid)))) = [] then None
         else Some True)"
    using u by (simp only: render_initialization) simp
  from m first later test show ?thesis
    by blast
qed

theorem initialization_flag_witness:
  "data props_ab \<noteq> [] \<and> getEnv host_ltr \<noteq> ''test'' \<and> getEnv host_test = ''test'' \<and>
   map_option mod_initialization (SegmentedControl props_ab (mount props_ab ''sc'')) = Some True \<and>
   initialized (snd (fst (step host_ltr Timeout (props_ab, mount props_ab ''sc'')))) \<and>
   initialized (snd (fst (run host_ltr [Timeout, Change ''b'', Effect] (props_ab, mount props_ab ''sc'')))) \<and>
   map_option mod_initialization
     (SegmentedControl props_ab
        (snd (fst (run host_ltr [Timeout, Change ''b'', Effect] (props_ab, mount props_ab ''sc'')))))
     = Some False \<and>
   \<not> initialized (snd (fst (run host_test [Timeout, Change ''b'', Effect] (props_ab, mount props_ab ''sc'')))) \<and>
   map_option mod_initialization
     (SegmentedControl props_ab
        (snd (fst (run host_test [Timeout, Change ''b'', Effect] (props_ab, mount props_ab ''sc'')))))
     = Some True"
proof -
  have p1: "fst (fst (run host_ltr [Timeout, Change ''b'', Effect] (props_ab, mount props_ab ''sc'')))
      = props_ab"
    by (simp add: norm_data_def normalize_item_def split: prod.splits)
  have p2: "fst (fst (run host_test [Timeout, Change ''b'', Effect] (props_ab, mount props_ab ''sc'')))
      = props_ab"
    by (simp add: norm_data_def normalize_item_def split: prod.splits)
  from initialization_flag [of props_ab "''sc''" host_ltr "(props_ab, mount props_ab ''sc'')"
      "[Change ''b'', Effect]"]
    initialization_flag [of props_ab "''sc''" host_test "(props_ab, mount props_ab ''sc'')"
      "[Timeout, Change ''b'', Effect]"]
  show ?thesis
    unfolding p1 p2 by simp
qed

section \<open>The geometry of the indicator\<close>

lemma geometry_effect_measured:
  "refs st (key_of v) = Some (Some el) \<Longrightarrow> observerRef st = Some rootEl \<Longrightarrow>
     activePosition (geometry_effect d v st) =
       measured_position d (rootPadding rootEl) (containerRect st) el"
  by (simp add: geometry_effect_def)

lemma geometry_effect_no_key:
  "refs st (key_of v) = None \<Longrightarrow> geometry_effect d v st = st"
  by (simp add: geometry_effect_def)

lemma geometry_effect_unmounted_root:
  "observerRef st = None \<Longrightarrow> geometry_effect d v st = st"
  by (simp add: geometry_effect_def split: option.splits)

lemma geometry_effect_null_element:
  "refs st (key_of v) = Some None \<Longrightarrow> observerRef st = Some rootEl \<Longrightarrow>
     activePosition (geometry_effect d v st) = hidden"
  by (simp add: geometry_effect_def)

lemma measured_position_directions:
  "width (measured_position rtl pad cw el) = width (measured_position ltr pad cw el) \<and>
   height (measured_position rtl pad cw el) = height (measured_position ltr pad cw el) \<and>
   snd (translate (measured_position rtl pad cw el)) =
     snd (translate (measured_position ltr pad cw el)) \<and>
   fst (translate (measured_position ltr pad cw el)) = jsub (parentOffsetLeft el) (padLeft pad) \<and>
   fst (translate (measured_position rtl pad cw el)) =
     jmul (jsub (jadd (jsub cw (parentOffsetLeft el)) (padLeft pad))
                (width (measured_position ltr pad cw el)))
          (Num (- 1))"
  by (simp add: measured_position_def Let_def)

text \<open>
  With finite measurements the two horizontal offsets differ by the free space of the
  container, \<open>cw - w\<close>: the offset under \<open>rtl\<close> is not the negation of the one under \<open>ltr\<close>.
\<close>

lemma measured_position_offset_finite:
  assumes "parentOffsetLeft el = Num ol" and "padLeft pad = Num pl"
    and "width (measured_position ltr pad (Num cw) el) = Num w"
  shows "fst (translate (measured_position ltr pad (Num cw) el)) = Num (ol - pl) \<and>
         fst (translate (measured_position rtl pad (Num cw) el)) = Num (ol - pl - (cw - w))"
  using measured_position_directions [of pad "Num cw" el] assms
  by simp

text \<open>
  C6, as stated, fails: for the first of two controls in a container 100 wide, with a
  padding of 4 on every side, the horizontal translate is 0 under \<open>ltr\<close> and -70 under
  \<open>rtl\<close>, which is not 0 with its sign changed.
\<close>

theorem direction_mirror_counterexample:
  "translate (activePosition (geometry_effect ltr (Some ''a'') state_measured)) = (Num 0, Num 0) \<and>
   translate (activePosition (geometry_effect rtl (Some ''a'') state_measured)) = (Num (- 70), Num 0) \<and>
   fst (translate (activePosition (geometry_effect rtl (Some ''a'') state_measured))) \<noteq>
     jmul (fst (translate (activePosition (geometry_effect ltr (Some ''a'') state_measured))))
          (Num (- 1))"
  by (simp add: geometry_effect_def key_of_def measured_position_def jor_def)

text \<open>
  C6, amended: for fixed measurements of a mounted control, the geometry computed under
  \<open>rtl\<close> has the same width, height and vertical translate as under \<open>ltr\<close>. The horizontal
  translate under \<open>ltr\<close> is the offset from the left edge,
  \<open>parent.offsetLeft - padding.left\<close>; under \<open>rtl\<close> it is the negated offset from the right
  edge, \<open>- (container.width - parent.offsetLeft + padding.left - width)\<close>.
\<close>

theorem direction_geometry:
  assumes "refs st (key_of v) = Some (Some el)" and "observerRef st = Some rootEl"
  shows "width (activePosition (geometry_effect rtl v st)) =
           width (activePosition (geometry_effect ltr v st)) \<and>
         height (activePosition (geometry_effect rtl v st)) =
           height (activePosition (geometry_effect ltr v st)) \<and>
         snd (translate (activePosition (geometry_effect rtl v st))) =
           snd (translate (activePosition (geometry_effect ltr v st))) \<and>
         fst (translate (activePosition (geometry_effect ltr v st))) =
           jsub (parentOffsetLeft el) (padLeft (rootPadding rootEl)) \<and>
         fst (translate (activePosition (geometry_effect rtl v st))) =
           jmul (jsub (jadd (jsub (containerRect st) (parentOffsetLeft el))
                            (padLeft (rootPadding rootEl)))
                      (width (activePosition (geometry_effect ltr v st))))
                (Num (- 1))"
  using measured_position_directions [of "rootPadding rootEl" "containerRect st" el]
  by (simp add: geometry_effect_measured [OF assms])

theorem direction_geometry_witness:
  "refs state_measured (key_of (Some ''b'')) = Some (Some label_second) \<and>
   observerRef state_measured = Some root4 \<and>
   width (activePosition (geometry_effect rtl (Some ''b'') state_measured)) = Num 40 \<and>
   width (activePosition (geometry_effect ltr (Some ''b'') state_measured)) = Num 40 \<and>
   fst (translate (activePosition (geometry_effect ltr (Some ''b'') state_measured))) = Num 30 \<and>
   fst (translate (activePosition (geometry_effect rtl (Some ''b'') state_measured))) = Num (- 30)"
proof -
  have h1: "refs state_measured (key_of (Some ''b'')) = Some (Some label_second)"
    by (simp add: key_of_def)
  have h2: "observerRef state_measured = Some root4"
    by simp
  have w: "width (activePosition (geometry_effect ltr (Some ''b'') state_measured)) = Num 40"
    by (simp add: geometry_effect_def key_of_def measured_position_def jor_def)
  from direction_geometry [OF h1 h2] h1 h2 w show ?thesis
    by simp
qed

text \<open>
  C3 at a concrete run: two controls \<open>a\<close> and \<open>b\<close> are mounted with the controlled value
  \<open>a\<close> and the effect measures the indicator; the owner then sets the value \<open>c\<close>, which no
  control carries, and the effect runs again. The key \<open>c\<close> is not in \<open>refs\<close>, the guard of
  the effect fails, and the indicator keeps the geometry of \<open>a\<close> instead of being hidden.
\<close>

theorem stale_indicator_example:
  "current_value
     (fst (fst (run host_ltr (mounting @ [SetProps (props_ab\<lparr>value_prop := Some ''c''\<rparr>), Effect])
        (props_ab\<lparr>value_prop := Some ''a''\<rparr>, mount (props_ab\<lparr>value_prop := Some ''a''\<rparr>) ''sc''))))
     (snd (fst (run host_ltr (mounting @ [SetProps (props_ab\<lparr>value_prop := Some ''c''\<rparr>), Effect])
        (props_ab\<lparr>value_prop := Some ''a''\<rparr>, mount (props_ab\<lparr>value_prop := Some ''a''\<rparr>) ''sc''))))
     = Some ''c'' \<and>
   ''c'' \<notin> value ` set (norm_data (data (props_ab\<lparr>value_prop := Some ''c''\<rparr>))) \<and>
   activePosition
     (snd (fst (run host_ltr (mounting @ [SetProps (props_ab\<lparr>value_prop := Some ''c''\<rparr>), Effect])
        (props_ab\<lparr>value_prop := Some ''a''\<rparr>, mount (props_ab\<lparr>value_prop := Some ''a''\<rparr>) ''sc''))))
     = \<lparr>width = Num 30, height = Num 20, translate = (Num 0, Num 0)\<rparr>"
  by (simp add: mount_def label_ref_def geometry_effect_def key_of_def measured_position_def
      jor_def current_value_def useUncontrolled_value_def norm_data_def normalize_item_def)

lemma jor_zero_not_NaN: "jor x (Num 0) \<noteq> NaN"
  by (cases x) (simp_all add: jor_def)

lemma jmul_NaN_right: "jmul x NaN = NaN"
  by (cases x) simp_all

text \<open>The guard \<^verbatim>\<open>|| 0\<close> keeps NaN out of the width and the height.\<close>

lemma measured_position_not_NaN:
  "width (measured_position d pad cw el) \<noteq> NaN \<and> height (measured_position d pad cw el) \<noteq> NaN"
  by (simp add: measured_position_def Let_def jor_zero_not_NaN)

text \<open>An element without layout (both widths zero) gets the size zero.\<close>

lemma measured_position_unlaid:
  "rectWidth el = Num 0 \<Longrightarrow> offsetWidth el = Num 0 \<Longrightarrow>
     width (measured_position d pad cw el) = Num 0 \<and>
     height (measured_position d pad cw el) = Num 0"
  by (simp add: measured_position_def Let_def jor_def jmul_NaN_right)

text \<open>
  C10 at a concrete input: the label's bounding rectangle has width 0 while its
  \<^verbatim>\<open>offsetWidth\<close> and \<^verbatim>\<open>clientWidth\<close> are 100 and its \<^verbatim>\<open>clientHeight\<close> is 30. The scale factor
  is \<^verbatim>\<open>100 / 0\<close>, which is \<^verbatim>\<open>Infinity\<close>; the products are \<^verbatim>\<open>Infinity\<close>, which is truthy, so the
  guard \<^verbatim>\<open>|| 0\<close> lets them through and the stored width and height are infinite.
\<close>

theorem infinite_size_example:
  "width (activePosition (geometry_effect ltr (Some ''a'')
      (state_measured\<lparr>refs := [''a'' \<mapsto> Some label_scaled]\<rparr>))) = PosInf \<and>
   height (activePosition (geometry_effect ltr (Some ''a'')
      (state_measured\<lparr>refs := [''a'' \<mapsto> Some label_scaled]\<rparr>))) = PosInf \<and>
   \<not> is_finite (width (activePosition (geometry_effect ltr (Some ''a'')
      (state_measured\<lparr>refs := [''a'' \<mapsto> Some label_scaled]\<rparr>))))"
  by (simp add: geometry_effect_def key_of_def measured_position_def jor_def)

end
